theory Spec2Isabelle
  imports Main
begin

section \<open>Strings\<close>

text \<open>
  A Python \<open>str\<close> is a sequence of code points and \<open>len\<close> counts them. The model
  writes a \<open>str\<close> as a \<open>string\<close> in which each \<open>char\<close> stands for one code point, so
  the repertoire is the first 256 code points (Latin-1) and \<open>length\<close> is \<open>len\<close>.
\<close>

text \<open>
  \<open>str.lower()\<close> on that repertoire: the letters \<open>A\<close>..\<open>Z\<close> (65..90) and the
  upper-case letters 192..222 other than the multiplication sign 215 move up by 32;
  every other code point is left as it is.
\<close>

definition lower_char :: "char \<Rightarrow> char" where
  "lower_char c =
     (let n = (of_char c :: nat)
      in if (65 \<le> n \<and> n \<le> 90) \<or> (192 \<le> n \<and> n \<le> 222 \<and> n \<noteq> 215)
         then char_of (n + 32) else c)"

definition lower :: "string \<Rightarrow> string" where
  "lower s = map lower_char s"

text \<open>\<open>sep.join(xs)\<close>.\<close>

fun join :: "string \<Rightarrow> string list \<Rightarrow> string" where
  "join sep [] = []"
| "join sep [x] = x"
| "join sep (x # y # ys) = x @ sep @ join sep (y # ys)"

text \<open>\<open>str(n)\<close> of a non-negative integer, as an f-string prints \<open>len(lists)\<close>.\<close>

fun str_nat :: "nat \<Rightarrow> string" where
  "str_nat n =
     (if n < 10 then [''0123456789'' ! n]
      else str_nat (n div 10) @ [''0123456789'' ! (n mod 10)])"

declare str_nat.simps [simp del]

text \<open>An optional string inside an f-string: \<open>None\<close> prints as \<open>None\<close>.\<close>

definition str_opt :: "string option \<Rightarrow> string" where
  "str_opt u = (case u of None \<Rightarrow> ''None'' | Some s \<Rightarrow> s)"

text \<open>Truth value of an optional string: \<open>None\<close> and the empty string are false.\<close>

definition truthy :: "string option \<Rightarrow> bool" where
  "truthy u = (case u of None \<Rightarrow> False | Some s \<Rightarrow> s \<noteq> [])"

section \<open>The board service as the handlers see it\<close>

text \<open>
  A board list, as one object of the array that the list fetch decodes: the fields \<open>id\<close>
  and \<open>name\<close> of the service's contract, both strings.
\<close>

record board_list =
  id_of :: string
  name :: string

text \<open>
  What \<open>requests.get\<close> or \<open>requests.post\<close> followed by \<open>response.json()\<close> can do:
  the call raises (the message of the exception is kept), or a response with a status
  code arrives and \<open>response.json()\<close> either raises (\<open>Inl\<close>, the message) or returns the
  decoded body (\<open>Inr\<close>). The type of the decoded body is left open, since neither client
  function looks into it.
\<close>

datatype 'j http_outcome =
    NetworkFailure string
  | Response nat "string + 'j"

type_synonym params = "(string \<times> string) list"

type_synonym 'j requests_fn = "string \<Rightarrow> params \<Rightarrow> 'j http_outcome"

text \<open>Everything a handler or \<open>main\<close> does that is visible from outside, in order.\<close>

datatype event =
    LogInfo string
  | LogError string
  | Print string
  | ReplyText string
  | RequestsGet string params
  | RequestsPost string params
  | BuildApplication string
  | AddHandler string
  | RunPolling

section \<open>TelegramTrelloBotManager\<close>

record manager =
  telegram_token :: string
  trello_api_key :: string
  trello_token :: string
  trello_board_id :: string
  trello_base_url :: string
  default_list_name :: string

text \<open>\<open>__init__\<close>: stores the credentials, fixes the base URL and the default list.\<close>

definition init :: "string \<Rightarrow> string \<Rightarrow> string \<Rightarrow> string \<Rightarrow> event list \<times> manager" where
  "init tg_token api_key token board_id =
     ([LogInfo ''TelegramTrelloBotManager initialized''],
      \<lparr>telegram_token = tg_token, trello_api_key = api_key, trello_token = token,
       trello_board_id = board_id, trello_base_url = ''https://api.trello.com/1'',
       default_list_name = ''Todo''\<rparr>)"

text \<open>
  \<open>create_trello_card\<close>: one POST, then \<open>response.json()\<close>. The status code is not
  read. The result carries the call made and either the exception's message or the
  decoded body.
\<close>

definition create_trello_card ::
  "manager \<Rightarrow> 'j requests_fn \<Rightarrow> string \<Rightarrow> string \<Rightarrow> string \<Rightarrow> event list \<times> (string + 'j)" where
  "create_trello_card self requests_post list_id card_name description =
     (let url = trello_base_url self @ ''/cards'';
          ps = [(''key'', trello_api_key self), (''token'', trello_token self),
                (''idList'', list_id), (''name'', card_name), (''desc'', description)]
      in ([RequestsPost url ps],
          (case requests_post url ps of
             NetworkFailure e \<Rightarrow> Inl e
           | Response status body \<Rightarrow> body)))"

text \<open>\<open>get_trello_lists\<close>: one GET, then \<open>response.json()\<close>; again the status is not read.\<close>

definition get_trello_lists ::
  "manager \<Rightarrow> 'j requests_fn \<Rightarrow> event list \<times> (string + 'j)" where
  "get_trello_lists self requests_get =
     (let url = trello_base_url self @ ''/boards/'' @ trello_board_id self @ ''/lists'';
          ps = [(''key'', trello_api_key self), (''token'', trello_token self)]
      in ([RequestsGet url ps],
          (case requests_get url ps of
             NetworkFailure e \<Rightarrow> Inl e
           | Response status body \<Rightarrow> body)))"

text \<open>
  The lookup of both handlers,
  \<open>next((lst for lst in lists if lst['name'].lower() == list_name.lower()), None)\<close>:
  the first list, in the order of the response, whose lowered name is the lowered query.
\<close>

fun matching_list :: "board_list list \<Rightarrow> string \<Rightarrow> board_list option" where
  "matching_list [] list_name = None"
| "matching_list (lst # rest) list_name =
     (if lower (name lst) = lower list_name then Some lst
      else matching_list rest list_name)"

section \<open>The update a handler receives\<close>

text \<open>
  The replied-to message with its two optional text fields, and the update: the user name
  of the sender (it may be unset), and the message replied to when the command is a
  reply. The update is one that carries a message and a sender, as a command sent in a
  chat does, and a reply to it is delivered. The argument tokens are \<open>context.args\<close>,
  a list or \<open>None\<close>.
\<close>

record message =
  text_of :: "string option"
  caption :: "string option"

record update =
  username :: "string option"
  reply_to_message :: "message option"

section \<open>The explicit create-card handler\<close>

text \<open>The apostrophe, written by its code so that it can end a literal.\<close>

definition apos :: string where
  "apos = [CHR 0x27]"

definition usage_text :: string where
  "usage_text =
     ''Usage: /createcard <list_name> <card_title>'' @ [CHR 0x0A] @
     ''Example: /createcard Todo '' @ apos @ ''Buy groceries'' @ apos"

definition telegram_create_card_command ::
  "manager \<Rightarrow> board_list list requests_fn \<Rightarrow> 'c requests_fn \<Rightarrow> update \<Rightarrow>
   string list option \<Rightarrow> event list" where
  "telegram_create_card_command self requests_get requests_post upd args =
     LogInfo (''Create card command received from '' @ str_opt (username upd)) #
     (case args of
        None \<Rightarrow> [ReplyText usage_text]
      | Some ts \<Rightarrow>
          if ts = [] \<or> length ts < 2 then [ReplyText usage_text]
          else
            let list_name = ts ! 0;
                card_title = join '' '' (drop 1 ts)
            in (case get_trello_lists self requests_get of
                  (ev, Inl e) \<Rightarrow>
                    ev @ [LogError (''Error retrieving Trello lists: '' @ e),
                          ReplyText (''Error retrieving Trello lists: '' @ e)]
                | (ev, Inr blists) \<Rightarrow>
                    ev @ LogInfo (''Retrieved '' @ str_nat (length blists) @ '' Trello lists'') #
                    (case matching_list blists list_name of
                       None \<Rightarrow> [ReplyText (''No list found with name: '' @ list_name)]
                     | Some m \<Rightarrow>
                         (case create_trello_card self requests_post (id_of m) card_title [] of
                            (ev', Inl e) \<Rightarrow>
                              ev' @ [LogError (''Error creating Trello card: '' @ e),
                                     ReplyText (''Error creating card: '' @ e)]
                          | (ev', Inr created) \<Rightarrow>
                              ev' @ [ReplyText (''Card '' @ apos @ card_title @ apos @
                                       '' created in list '' @ apos @ list_name @ apos @
                                       ''!'')]))))"

section \<open>The reply-to-create handler\<close>

text \<open>\<open>reply_to_message.text or reply_to_message.caption\<close>.\<close>

definition original_message :: "message \<Rightarrow> string option" where
  "original_message rm = (if truthy (text_of rm) then text_of rm else caption rm)"

text \<open>
  \<open>original_message[:150] + '...' if len(original_message) > 150 else original_message\<close>
\<close>

definition card_name :: "string \<Rightarrow> string" where
  "card_name orig = (if length orig > 150 then take 150 orig @ ''...'' else orig)"

definition telegram_trello_reply_command ::
  "manager \<Rightarrow> board_list list requests_fn \<Rightarrow> 'c requests_fn \<Rightarrow> update \<Rightarrow> event list" where
  "telegram_trello_reply_command self requests_get requests_post upd =
     LogInfo (''/trello command received from '' @ str_opt (username upd)) #
     (case reply_to_message upd of
        None \<Rightarrow>
          [ReplyText (''Please use /trello as a reply to a message you want to '' @
                      ''create a Trello card for.'')]
      | Some rm \<Rightarrow>
          (let orig_opt = original_message rm
           in if \<not> truthy orig_opt then
                [ReplyText ''The message you replied to doesn't contain any text.'']
              else
                (case get_trello_lists self requests_get of
                   (ev, Inl e) \<Rightarrow>
                     ev @ [LogError (''Error retrieving Trello lists: '' @ e),
                           ReplyText (''Error retrieving Trello lists: '' @ e)]
                 | (ev, Inr blists) \<Rightarrow>
                     ev @ LogInfo (''Retrieved '' @ str_nat (length blists) @ '' Trello lists'') #
                     (case matching_list blists (default_list_name self) of
                        None \<Rightarrow>
                          [ReplyText (''No '' @ apos @ default_list_name self @ apos @
                                      '' list found in the board.'')]
                      | Some todo_list \<Rightarrow>
                          (case create_trello_card self requests_post (id_of todo_list)
                                  (card_name (the orig_opt)) [] of
                             (ev', Inl e) \<Rightarrow>
                               ev' @ [LogError (''Error creating Trello card: '' @ e),
                                      ReplyText (''Error creating card: '' @ e)]
                           | (ev', Inr created) \<Rightarrow>
                               ev' @ [ReplyText (''Card created in '' @ default_list_name self @
                                        '' list!'')])))))"

section \<open>Process entry point\<close>

text \<open>
  What the messaging transport does when \<open>main\<close> reaches it: building the application
  may raise, and \<open>run_polling\<close> may raise or return (\<open>None\<close>: no exception).
\<close>

record transport =
  build_error :: "string option"
  polling_error :: "string option"

definition main :: "(string \<Rightarrow> string option) \<Rightarrow> transport \<Rightarrow> event list" where
  "main getenv tr =
     (let TELEGRAM_TOKEN = getenv ''TELEGRAM_BOT_TOKEN'';
          TRELLO_API_KEY = getenv ''TRELLO_API_KEY'';
          TRELLO_TOKEN = getenv ''TRELLO_TOKEN'';
          TRELLO_BOARD_ID = getenv ''TRELLO_BOARD_ID''
      in if \<not> list_all truthy [TELEGRAM_TOKEN, TRELLO_API_KEY, TRELLO_TOKEN, TRELLO_BOARD_ID]
         then [LogError ''Missing one or more required environment variables'',
               Print ''Please set all required environment variables:'',
               Print ''- TELEGRAM_BOT_TOKEN'',
               Print ''- TRELLO_API_KEY'',
               Print ''- TRELLO_TOKEN'',
               Print ''- TRELLO_BOARD_ID'']
         else
           (let (ev, bot_manager) =
                  init (the TELEGRAM_TOKEN) (the TRELLO_API_KEY) (the TRELLO_TOKEN)
                    (the TRELLO_BOARD_ID)
            in ev @ BuildApplication (the TELEGRAM_TOKEN) #
               (case build_error tr of
                  Some e \<Rightarrow>
                    [LogError (''An error occurred while starting the bot: '' @ e),
                     Print (''Error: '' @ e)]
                | None \<Rightarrow>
                    [AddHandler ''start'', AddHandler ''createcard'', AddHandler ''trello'',
                     LogInfo ''Attempting to start bot polling'',
                     Print ''Starting bot polling...'',
                     RunPolling] @
                    (case polling_error tr of
                       Some e \<Rightarrow>
                         [LogError (''An error occurred while starting the bot: '' @ e),
                          Print (''Error: '' @ e)]
                     | None \<Rightarrow> [LogInfo ''Bot polling started successfully'']))))"

section \<open>Reading a trace\<close>

text \<open>The create-card calls, the list fetches and the replies of a trace, in order.\<close>

fun create_calls :: "event list \<Rightarrow> (string \<times> params) list" where
  "create_calls [] = []"
| "create_calls (RequestsPost url ps # es) = (url, ps) # create_calls es"
| "create_calls (e # es) = create_calls es"

fun fetch_calls :: "event list \<Rightarrow> (string \<times> params) list" where
  "fetch_calls [] = []"
| "fetch_calls (RequestsGet url ps # es) = (url, ps) # fetch_calls es"
| "fetch_calls (e # es) = fetch_calls es"

fun replies :: "event list \<Rightarrow> string list" where
  "replies [] = []"
| "replies (ReplyText s # es) = s # replies es"
| "replies (e # es) = replies es"

text \<open>The request that \<open>get_trello_lists\<close> sends, and the one \<open>create_trello_card\<close> sends.\<close>

definition lists_url :: "manager \<Rightarrow> string" where
  "lists_url self = trello_base_url self @ ''/boards/'' @ trello_board_id self @ ''/lists''"

definition auth_params :: "manager \<Rightarrow> params" where
  "auth_params self = [(''key'', trello_api_key self), (''token'', trello_token self)]"

definition cards_url :: "manager \<Rightarrow> string" where
  "cards_url self = trello_base_url self @ ''/cards''"

definition card_params :: "manager \<Rightarrow> string \<Rightarrow> string \<Rightarrow> string \<Rightarrow> params" where
  "card_params self list_id title description =
     auth_params self @ [(''idList'', list_id), (''name'', title), (''desc'', description)]"


text \<open>The card names sent upstream: the \<open>name\<close> parameter of each create-card call.\<close>

definition sent_names :: "event list \<Rightarrow> string list" where
  "sent_names es =
     map snd (filter (\<lambda>kv. fst kv = ''name'') (concat (map snd (create_calls es))))"

text \<open>The argument tokens of an invocation; \<open>None\<close> carries none.\<close>

definition tokens :: "string list option \<Rightarrow> string list" where
  "tokens args = (case args of None \<Rightarrow> [] | Some ts \<Rightarrow> ts)"

text \<open>
  A failed board-service call, in the words of the specification: a network failure, a
  status outside 200..299, or a body that cannot be decoded.
\<close>

definition status_ok :: "nat \<Rightarrow> bool" where
  "status_ok st = (200 \<le> st \<and> st < 300)"

definition spec_call_failed :: "'j http_outcome \<Rightarrow> bool" where
  "spec_call_failed out =
     (case out of
        NetworkFailure e \<Rightarrow> True
      | Response st body \<Rightarrow> \<not> status_ok st \<or> isl body)"

text \<open>The four configuration values that \<open>main\<close> reads, and those of them that are unset.\<close>

definition required_variables :: "string list" where
  "required_variables =
     [''TELEGRAM_BOT_TOKEN'', ''TRELLO_API_KEY'', ''TRELLO_TOKEN'', ''TRELLO_BOARD_ID'']"

definition missing_variables :: "(string \<Rightarrow> string option) \<Rightarrow> string list" where
  "missing_variables getenv = filter (\<lambda>v. getenv v = None) required_variables"

text \<open>The texts of the two corrective replies of the reply-to-create handler.\<close>

definition instruction_text :: string where
  "instruction_text =
     ''Please use /trello as a reply to a message you want to create a Trello card for.''"

definition no_text_reply :: string where
  "no_text_reply = ''The message you replied to doesn't contain any text.''"

section \<open>Sample inputs\<close>

text \<open>
  A manager as \<open>__init__\<close> builds it, the board of the specification's round trip (lists
  \<open>Todo\<close> and \<open>Doing\<close>), a service that answers every request with success, one whose
  network is down, and one that answers with status 429 and a decodable body.
\<close>

definition sample_manager :: manager where
  "sample_manager = snd (init ''bot-token'' ''api-key'' ''api-token'' ''board-7'')"

definition sample_lists :: "board_list list" where
  "sample_lists = [\<lparr>id_of = ''1'', name = ''Todo''\<rparr>, \<lparr>id_of = ''2'', name = ''Doing''\<rparr>]"

definition sample_get :: "board_list list requests_fn" where
  "sample_get url ps = Response 200 (Inr sample_lists)"

definition sample_post :: "unit requests_fn" where
  "sample_post url ps = Response 200 (Inr ())"

definition down_get :: "board_list list requests_fn" where
  "down_get url ps = NetworkFailure ''Connection refused''"

definition limited_get :: "board_list list requests_fn" where
  "limited_get url ps = Response 429 (Inr [])"

definition limited_post :: "unit requests_fn" where
  "limited_post url ps = Response 429 (Inr ())"

definition sample_update :: update where
  "sample_update = \<lparr>username = Some ''alice'', reply_to_message = None\<rparr>"

text \<open>An update that replies to a message whose text is \<open>n\<close> times the letter \<open>a\<close>.\<close>

definition reply_to_text :: "nat \<Rightarrow> update" where
  "reply_to_text n =
     \<lparr>username = Some ''alice'',
      reply_to_message = Some \<lparr>text_of = Some (replicate n (CHR ''a'')), caption = None\<rparr>\<rparr>"

text \<open>An update that replies to a message with empty text and the caption \<open>Fix door\<close>.\<close>

definition reply_to_caption :: update where
  "reply_to_caption =
     \<lparr>username = None,
      reply_to_message = Some \<lparr>text_of = Some [], caption = Some ''Fix door''\<rparr>\<rparr>"

text \<open>Two environments: the first lacks only the bot token, the second only the board.\<close>

definition env_without_bot_token :: "string \<Rightarrow> string option" where
  "env_without_bot_token =
     [''TRELLO_API_KEY'' \<mapsto> ''k'', ''TRELLO_TOKEN'' \<mapsto> ''t'', ''TRELLO_BOARD_ID'' \<mapsto> ''b'']"

definition env_without_board_id :: "string \<Rightarrow> string option" where
  "env_without_board_id =
     [''TELEGRAM_BOT_TOKEN'' \<mapsto> ''g'', ''TRELLO_API_KEY'' \<mapsto> ''k'', ''TRELLO_TOKEN'' \<mapsto> ''t'']"

definition sample_transport :: transport where
  "sample_transport = \<lparr>build_error = None, polling_error = None\<rparr>"

section \<open>Basic facts\<close>

lemma create_calls_append: "create_calls (xs @ ys) = create_calls xs @ create_calls ys"
  by (induction xs rule: create_calls.induct) simp_all

lemma fetch_calls_append: "fetch_calls (xs @ ys) = fetch_calls xs @ fetch_calls ys"
  by (induction xs rule: fetch_calls.induct) simp_all

lemma replies_append: "replies (xs @ ys) = replies xs @ replies ys"
  by (induction xs rule: replies.induct) simp_all




lemma get_trello_lists_eq:
  "get_trello_lists self rget =
     ([RequestsGet (lists_url self) (auth_params self)],
      (case rget (lists_url self) (auth_params self) of
         NetworkFailure e \<Rightarrow> Inl e
       | Response st body \<Rightarrow> body))"
  by (simp add: get_trello_lists_def lists_url_def auth_params_def Let_def)

lemma create_trello_card_eq:
  "create_trello_card self rpost list_id title description =
     ([RequestsPost (cards_url self) (card_params self list_id title description)],
      (case rpost (cards_url self) (card_params self list_id title description) of
         NetworkFailure e \<Rightarrow> Inl e
       | Response st body \<Rightarrow> body))"
  by (simp add: create_trello_card_def cards_url_def card_params_def auth_params_def Let_def)

section \<open>What the handlers send\<close>

lemma create_command_calls:
  assumes "2 \<le> length ts"
  shows "create_calls (telegram_create_card_command self rget rpost upd (Some ts)) =
     (case snd (get_trello_lists self rget) of
        Inl e \<Rightarrow> []
      | Inr blists \<Rightarrow>
          (case matching_list blists (hd ts) of
             None \<Rightarrow> []
           | Some m \<Rightarrow> [(cards_url self, card_params self (id_of m) (join '' '' (tl ts)) [])]))"
proof -
  from assms have ne: "ts \<noteq> []" and nlt: "\<not> length ts < 2" by auto
  from ne have hd: "ts ! 0 = hd ts" by (simp add: hd_conv_nth)
  have tl: "drop (Suc 0) ts = tl ts" by (simp add: drop_Suc)
  show ?thesis
    unfolding telegram_create_card_command_def
    by (simp add: ne nlt hd tl Let_def get_trello_lists_eq create_trello_card_eq
        create_calls_append
        split: sum.splits option.splits http_outcome.splits)
qed

lemma reply_command_calls:
  assumes "reply_to_message upd = Some rm" and "original_message rm = Some t" and "t \<noteq> []"
  shows "create_calls (telegram_trello_reply_command self rget rpost upd) =
     (case snd (get_trello_lists self rget) of
        Inl e \<Rightarrow> []
      | Inr blists \<Rightarrow>
          (case matching_list blists (default_list_name self) of
             None \<Rightarrow> []
           | Some m \<Rightarrow> [(cards_url self, card_params self (id_of m) (card_name t) [])]))"
  unfolding telegram_trello_reply_command_def
  using assms
  by (simp add: Let_def truthy_def get_trello_lists_eq create_trello_card_eq
      create_calls_append
      split: sum.splits option.splits http_outcome.splits)

lemma reply_command_no_text:
  assumes "reply_to_message upd = Some rm" and "\<not> truthy (original_message rm)"
  shows "telegram_trello_reply_command self rget rpost upd =
     [LogInfo (''/trello command received from '' @ str_opt (username upd)),
      ReplyText no_text_reply]"
  unfolding telegram_trello_reply_command_def
  using assms by (simp add: Let_def no_text_reply_def)

lemma reply_command_not_reply:
  assumes "reply_to_message upd = None"
  shows "telegram_trello_reply_command self rget rpost upd =
     [LogInfo (''/trello command received from '' @ str_opt (username upd)),
      ReplyText instruction_text]"
  unfolding telegram_trello_reply_command_def
  using assms by (simp add: instruction_text_def)

lemma create_command_usage:
  assumes "length (tokens args) < 2"
  shows "telegram_create_card_command self rget rpost upd args =
     [LogInfo (''Create card command received from '' @ str_opt (username upd)),
      ReplyText usage_text]"
  unfolding telegram_create_card_command_def
  using assms by (auto simp: tokens_def split: option.splits)


lemma sent_names_none: "create_calls es = [] \<Longrightarrow> sent_names es = []"
  by (simp add: sent_names_def)

lemma sent_names_one:
  "create_calls es = [(url, card_params self list_id title description)] \<Longrightarrow>
     sent_names es = [title]"
  by (simp add: sent_names_def card_params_def auth_params_def)

lemma create_command_sent_names:
  assumes "2 \<le> length ts"
  shows "set (sent_names (telegram_create_card_command self rget rpost upd (Some ts)))
           \<subseteq> {join '' '' (tl ts)}"
proof (cases "snd (get_trello_lists self rget)")
  case (Inl e)
  with create_command_calls [OF assms, of self rget rpost upd]
  have "create_calls (telegram_create_card_command self rget rpost upd (Some ts)) = []"
    by simp
  then show ?thesis by (simp add: sent_names_none)
next
  case (Inr blists)
  show ?thesis
  proof (cases "matching_list blists (hd ts)")
    case None
    with Inr create_command_calls [OF assms, of self rget rpost upd]
    have "create_calls (telegram_create_card_command self rget rpost upd (Some ts)) = []"
      by simp
    then show ?thesis by (simp add: sent_names_none)
  next
    case (Some m)
    with Inr create_command_calls [OF assms, of self rget rpost upd]
    have "create_calls (telegram_create_card_command self rget rpost upd (Some ts)) =
            [(cards_url self, card_params self (id_of m) (join '' '' (tl ts)) [])]"
      by simp
    then show ?thesis by (simp add: sent_names_one)
  qed
qed

lemma sample_lists_Doing:
  "matching_list sample_lists ''Doing'' = Some \<lparr>id_of = ''2'', name = ''Doing''\<rparr>"
  by code_simp

lemma create_command_fetch_failed:
  assumes "2 \<le> length ts" and "snd (get_trello_lists self rget) = Inl e"
  shows "telegram_create_card_command self rget rpost upd (Some ts) =
     [LogInfo (''Create card command received from '' @ str_opt (username upd)),
      RequestsGet (lists_url self) (auth_params self),
      LogError (''Error retrieving Trello lists: '' @ e),
      ReplyText (''Error retrieving Trello lists: '' @ e)]"
proof -
  from assms(1) have ne: "ts \<noteq> []" and nlt: "\<not> length ts < 2" by auto
  from assms(2) show ?thesis
    unfolding telegram_create_card_command_def
    by (simp add: ne nlt Let_def get_trello_lists_eq split: http_outcome.splits)
qed

lemma reply_command_fetch_failed:
  assumes "reply_to_message upd = Some rm" and "truthy (original_message rm)"
    and "snd (get_trello_lists self rget) = Inl e"
  shows "telegram_trello_reply_command self rget rpost upd =
     [LogInfo (''/trello command received from '' @ str_opt (username upd)),
      RequestsGet (lists_url self) (auth_params self),
      LogError (''Error retrieving Trello lists: '' @ e),
      ReplyText (''Error retrieving Trello lists: '' @ e)]"
  using assms
  unfolding telegram_trello_reply_command_def
  by (simp add: Let_def get_trello_lists_eq split: http_outcome.splits)

lemma truthy_Some: "truthy u \<longleftrightarrow> (\<exists>t. u = Some t \<and> t \<noteq> [])"
  by (cases u) (simp_all add: truthy_def)

lemma reply_command_calls_general:
  "create_calls (telegram_trello_reply_command self rget rpost upd) =
     (case reply_to_message upd of
        None \<Rightarrow> []
      | Some rm \<Rightarrow>
          if \<not> truthy (original_message rm) then []
          else
            (case snd (get_trello_lists self rget) of
               Inl e \<Rightarrow> []
             | Inr blists \<Rightarrow>
                 (case matching_list blists (default_list_name self) of
                    None \<Rightarrow> []
                  | Some m \<Rightarrow>
                      [(cards_url self,
                        card_params self (id_of m) (card_name (the (original_message rm))) [])])))"
proof (cases "reply_to_message upd")
  case None
  then show ?thesis by (simp add: reply_command_not_reply)
next
  case (Some rm)
  show ?thesis
  proof (cases "truthy (original_message rm)")
    case False
    with Some show ?thesis by (simp add: reply_command_no_text)
  next
    case True
    then obtain t where t: "original_message rm = Some t" "t \<noteq> []"
      by (auto simp: truthy_Some)
    from reply_command_calls [OF Some t, of self rget rpost] Some True t
    show ?thesis by (simp split: sum.splits option.splits)
  qed
qed

lemma create_command_calls_fetch_failed:
  assumes "snd (get_trello_lists self rget) = Inl e"
  shows "create_calls (telegram_create_card_command self rget rpost upd args) = []"
proof (cases "length (tokens args) < 2")
  case True
  then show ?thesis by (simp add: create_command_usage)
next
  case False
  then obtain ts where ts: "args = Some ts" "2 \<le> length ts"
    by (cases args) (auto simp: tokens_def)
  from create_command_calls [OF ts(2), of self rget rpost upd] assms ts(1)
  show ?thesis by simp
qed

lemma reply_command_replies_text:
  assumes "reply_to_message upd = Some rm" and "truthy (original_message rm)"
  shows "replies (telegram_trello_reply_command self rget rpost upd) \<noteq> [no_text_reply]"
  using assms
  unfolding telegram_trello_reply_command_def
  by (simp add: Let_def get_trello_lists_eq create_trello_card_eq replies_append
      no_text_reply_def
      split: sum.splits option.splits http_outcome.splits)

lemma original_message_truthy:
  "truthy (original_message rm) \<longleftrightarrow> truthy (text_of rm) \<or> truthy (caption rm)"
  by (simp add: original_message_def)

lemma length_card_name: "length (card_name t) \<le> 153"
  by (simp add: card_name_def)

lemma reply_command_sent_names:
  "set (sent_names (telegram_trello_reply_command self rget rpost upd)) \<subseteq>
     (case reply_to_message upd of
        None \<Rightarrow> {}
      | Some rm \<Rightarrow> {card_name (the (original_message rm))})"
proof -
  let ?run = "telegram_trello_reply_command self rget rpost upd"
  have "create_calls ?run = [] \<or>
        (\<exists>rm (m::board_list). reply_to_message upd = Some rm \<and>
           create_calls ?run =
             [(cards_url self,
               card_params self (id_of m) (card_name (the (original_message rm))) [])])"
    by (auto simp: reply_command_calls_general split: option.splits sum.splits)
  then show ?thesis
  proof
    assume "create_calls ?run = []"
    then show ?thesis by (simp add: sent_names_none)
  next
    assume "\<exists>rm (m::board_list). reply_to_message upd = Some rm \<and>
           create_calls ?run =
             [(cards_url self,
               card_params self (id_of m) (card_name (the (original_message rm))) [])]"
    then obtain rm and m :: board_list where "reply_to_message upd = Some rm"
      and "create_calls ?run =
             [(cards_url self,
               card_params self (id_of m) (card_name (the (original_message rm))) [])]"
      by blast
    then show ?thesis by (simp add: sent_names_one)
  qed
qed

lemma sample_lists_Todo:
  "matching_list sample_lists (default_list_name sample_manager) =
     Some \<lparr>id_of = ''1'', name = ''Todo''\<rparr>"
  by code_simp

lemma sample_fetch: "snd (get_trello_lists sample_manager sample_get) = Inr sample_lists"
  by (simp add: get_trello_lists_eq sample_get_def)

lemma reply_to_text_message:
  "reply_to_message (reply_to_text n) =
     Some \<lparr>text_of = Some (replicate n (CHR ''a'')), caption = None\<rparr>"
  by (simp add: reply_to_text_def)

lemma reply_to_text_original:
  "0 < n \<Longrightarrow>
   original_message \<lparr>text_of = Some (replicate n (CHR ''a'')), caption = None\<rparr> =
     Some (replicate n (CHR ''a''))"
  by (simp add: original_message_def truthy_def)

lemma not_truthy_iff: "\<not> truthy u \<longleftrightarrow> u = None \<or> u = Some []"
  by (cases u) (simp_all add: truthy_def)

lemma main_missing:
  assumes "\<not> list_all truthy [getenv ''TELEGRAM_BOT_TOKEN'', getenv ''TRELLO_API_KEY'',
              getenv ''TRELLO_TOKEN'', getenv ''TRELLO_BOARD_ID'']"
  shows "main getenv tr =
     [LogError ''Missing one or more required environment variables'',
      Print ''Please set all required environment variables:'',
      Print ''- TELEGRAM_BOT_TOKEN'',
      Print ''- TRELLO_API_KEY'',
      Print ''- TRELLO_TOKEN'',
      Print ''- TRELLO_BOARD_ID'']"
  using assms unfolding main_def Let_def by simp

section \<open>The list lookup\<close>



section \<open>The explicit create-card handler: claims\<close>

text \<open>
  Claim C1. For every invocation of the explicit-create command with at least two tokens,
  every card title sent upstream is the tokens after the first joined by a single space.
  And whenever the list fetch returns the lists \<open>Todo\<close> (id 1) and \<open>Doing\<close> (id 2), the
  invocation with the tokens \<open>Doing\<close> and \<open>Buy milk\<close> makes exactly one create-card call,
  with \<open>idList\<close> 2 and \<open>name\<close> \<open>Buy milk\<close>.
\<close>

theorem create_card_sends_joined_title:
  "(2 \<le> length ts \<longrightarrow>
      (\<forall>n\<in>set (sent_names (telegram_create_card_command self rget rpost upd (Some ts))).
          n = join '' '' (tl ts))) \<and>
   (rget (lists_url self) (auth_params self) = Response st (Inr sample_lists) \<longrightarrow>
      create_calls
        (telegram_create_card_command self rget rpost upd (Some [''Doing'', ''Buy milk''])) =
      [(cards_url self,
        auth_params self @ [(''idList'', ''2''), (''name'', ''Buy milk''), (''desc'', [])])])"
proof (intro conjI impI)
  assume "2 \<le> length ts"
  from create_command_sent_names [OF this, of self rget rpost upd]
  show "\<forall>n\<in>set (sent_names (telegram_create_card_command self rget rpost upd (Some ts))).
          n = join '' '' (tl ts)"
    by blast
next
  assume resp: "rget (lists_url self) (auth_params self) = Response st (Inr sample_lists)"
  have two: "2 \<le> length [''Doing'', ''Buy milk'']" by simp
  from resp have fetched: "snd (get_trello_lists self rget) = Inr sample_lists"
    by (simp add: get_trello_lists_eq)
  show "create_calls
          (telegram_create_card_command self rget rpost upd (Some [''Doing'', ''Buy milk''])) =
        [(cards_url self,
          auth_params self @ [(''idList'', ''2''), (''name'', ''Buy milk''), (''desc'', [])])]"
    using create_command_calls [OF two, of self rget rpost upd]
    by (simp add: fetched sample_lists_Doing card_params_def)
qed

theorem create_card_sends_joined_title_witness:
  "2 \<le> length [''Todo'', ''Buy'', ''milk''] \<and>
   sent_names (telegram_create_card_command sample_manager sample_get sample_post sample_update
      (Some [''Todo'', ''Buy'', ''milk''])) = [''Buy milk''] \<and>
   sample_get (lists_url sample_manager) (auth_params sample_manager) =
     Response 200 (Inr sample_lists) \<and>
   create_calls (telegram_create_card_command sample_manager sample_get sample_post sample_update
      (Some [''Doing'', ''Buy milk''])) =
     [(''https://api.trello.com/1/cards'',
       [(''key'', ''api-key''), (''token'', ''api-token''), (''idList'', ''2''),
        (''name'', ''Buy milk''), (''desc'', [])])]"
proof -
  let ?run = "telegram_create_card_command sample_manager sample_get sample_post sample_update"
  have three: "2 \<le> length [''Todo'', ''Buy'', ''milk'']" by simp
  have resp: "sample_get (lists_url sample_manager) (auth_params sample_manager) =
                Response 200 (Inr sample_lists)"
    by (simp add: sample_get_def)
  have one: "length (sent_names (?run (Some [''Todo'', ''Buy'', ''milk'']))) = 1"
    by code_simp
  have title: "join '' '' (tl [''Todo'', ''Buy'', ''milk'']) = ''Buy milk''" by simp
  from three
    create_card_sends_joined_title [where ts = "[''Todo'', ''Buy'', ''milk'']"
      and self = sample_manager and rget = sample_get and rpost = sample_post
      and upd = sample_update]
  have all: "\<forall>n\<in>set (sent_names (?run (Some [''Todo'', ''Buy'', ''milk'']))). n = ''Buy milk''"
    unfolding title by blast
  from one obtain n where single: "sent_names (?run (Some [''Todo'', ''Buy'', ''milk''])) = [n]"
    by (cases "sent_names (?run (Some [''Todo'', ''Buy'', ''milk'']))") auto
  with all have names: "sent_names (?run (Some [''Todo'', ''Buy'', ''milk''])) = [''Buy milk'']"
    by simp
  from resp
    create_card_sends_joined_title [where self = sample_manager and rget = sample_get
      and st = 200 and rpost = sample_post and upd = sample_update]
  have "create_calls (?run (Some [''Doing'', ''Buy milk''])) =
          [(cards_url sample_manager,
            auth_params sample_manager @
              [(''idList'', ''2''), (''name'', ''Buy milk''), (''desc'', [])])]"
    by blast
  then have calls: "create_calls (?run (Some [''Doing'', ''Buy milk''])) =
     [(''https://api.trello.com/1/cards'',
       [(''key'', ''api-key''), (''token'', ''api-token''), (''idList'', ''2''),
        (''name'', ''Buy milk''), (''desc'', [])])]"
    by (simp add: cards_url_def auth_params_def sample_manager_def init_def)
  from three names resp calls show ?thesis by blast
qed

text \<open>
  Claim C5. For every invocation of the explicit-create command with fewer than two
  argument tokens (none at all included), the handler replies with the usage message and
  makes no outbound call: no list fetch and no card creation.
\<close>

theorem usage_without_outbound_call:
  assumes "length (tokens args) < 2"
  shows "replies (telegram_create_card_command self rget rpost upd args) = [usage_text] \<and>
         fetch_calls (telegram_create_card_command self rget rpost upd args) = [] \<and>
         create_calls (telegram_create_card_command self rget rpost upd args) = []"
  by (simp add: create_command_usage [OF assms])

theorem usage_without_outbound_call_witness:
  "length (tokens (Some [''Todo''])) < 2 \<and>
   replies (telegram_create_card_command sample_manager sample_get sample_post sample_update
      (Some [''Todo''])) =
     [''Usage: /createcard <list_name> <card_title>'' @ [CHR 0x0A] @
      ''Example: /createcard Todo '' @ [CHR 0x27] @ ''Buy groceries'' @ [CHR 0x27]] \<and>
   fetch_calls (telegram_create_card_command sample_manager sample_get sample_post sample_update
      (Some [''Todo''])) = [] \<and>
   create_calls (telegram_create_card_command sample_manager sample_get sample_post
      sample_update (Some [''Todo''])) = []"
proof -
  have one: "length (tokens (Some [''Todo''])) < 2" by (simp add: tokens_def)
  from usage_without_outbound_call [OF one, of sample_manager sample_get sample_post
      sample_update] one
  show ?thesis by (simp add: usage_text_def apos_def)
qed

section \<open>The reply-to-create handler: claims\<close>

text \<open>
  Claim C6. For every invocation of the reply-to-create command whose message is not a
  reply, the handler replies with the instructional text and makes no outbound call: no
  list fetch and no card creation.
\<close>

theorem not_a_reply_without_outbound_call:
  assumes "reply_to_message upd = None"
  shows "replies (telegram_trello_reply_command self rget rpost upd) = [instruction_text] \<and>
         fetch_calls (telegram_trello_reply_command self rget rpost upd) = [] \<and>
         create_calls (telegram_trello_reply_command self rget rpost upd) = []"
  by (simp add: reply_command_not_reply [OF assms])

theorem not_a_reply_without_outbound_call_witness:
  "reply_to_message sample_update = None \<and>
   replies (telegram_trello_reply_command sample_manager sample_get sample_post sample_update) =
     [''Please use /trello as a reply to a message you want to create a Trello card for.''] \<and>
   fetch_calls (telegram_trello_reply_command sample_manager sample_get sample_post
      sample_update) = [] \<and>
   create_calls (telegram_trello_reply_command sample_manager sample_get sample_post
      sample_update) = []"
proof -
  have none: "reply_to_message sample_update = None" by (simp add: sample_update_def)
  from not_a_reply_without_outbound_call [OF none, of sample_manager sample_get sample_post] none
  show ?thesis by (simp add: instruction_text_def)
qed

text \<open>
  Claim C3. In the reply-to-create handler, for every source text that reaches the card
  creation, the name sent is the first 150 characters followed by the ellipsis marker
  \<open>...\<close> when the text is longer than 150 characters, and the text itself otherwise. A
  text of 200 characters gives 150 characters and the marker, one of 100 characters is
  sent unchanged.
\<close>

theorem reply_card_name_truncation:
  assumes "reply_to_message upd = Some rm"
    and "original_message rm = Some t" and "t \<noteq> []"
    and "snd (get_trello_lists self rget) = Inr blists"
    and "matching_list blists (default_list_name self) = Some m"
  shows "create_calls (telegram_trello_reply_command self rget rpost upd) =
     [(cards_url self,
       auth_params self @
         [(''idList'', id_of m),
          (''name'', if 150 < length t then take 150 t @ ''...'' else t),
          (''desc'', [])])]"
  using reply_command_calls [OF assms(1-3), of self rget rpost] assms(4,5)
  by (simp add: card_params_def card_name_def)

theorem reply_card_name_truncation_witness:
  "create_calls (telegram_trello_reply_command sample_manager sample_get sample_post
      (reply_to_text 200)) =
     [(''https://api.trello.com/1/cards'',
       [(''key'', ''api-key''), (''token'', ''api-token''), (''idList'', ''1''),
        (''name'', replicate 150 (CHR ''a'') @ ''...''), (''desc'', [])])] \<and>
   create_calls (telegram_trello_reply_command sample_manager sample_get sample_post
      (reply_to_text 100)) =
     [(''https://api.trello.com/1/cards'',
       [(''key'', ''api-key''), (''token'', ''api-token''), (''idList'', ''1''),
        (''name'', replicate 100 (CHR ''a'')), (''desc'', [])])]"
proof -
  have long: "replicate 200 (CHR ''a'') \<noteq> []" and short: "replicate 100 (CHR ''a'') \<noteq> []"
    by simp_all
  have url: "cards_url sample_manager = ''https://api.trello.com/1/cards''"
    and auth: "auth_params sample_manager = [(''key'', ''api-key''), (''token'', ''api-token'')]"
    by (simp_all add: cards_url_def auth_params_def sample_manager_def init_def)
  from reply_card_name_truncation [OF reply_to_text_message reply_to_text_original long
      sample_fetch sample_lists_Todo, of sample_post]
  have first: "create_calls (telegram_trello_reply_command sample_manager sample_get
      sample_post (reply_to_text 200)) =
     [(''https://api.trello.com/1/cards'',
       [(''key'', ''api-key''), (''token'', ''api-token''), (''idList'', ''1''),
        (''name'', replicate 150 (CHR ''a'') @ ''...''), (''desc'', [])])]"
    by (simp add: url auth)
  from reply_card_name_truncation [OF reply_to_text_message reply_to_text_original short
      sample_fetch sample_lists_Todo, of sample_post]
  have second: "create_calls (telegram_trello_reply_command sample_manager sample_get
      sample_post (reply_to_text 100)) =
     [(''https://api.trello.com/1/cards'',
       [(''key'', ''api-key''), (''token'', ''api-token''), (''idList'', ''1''),
        (''name'', replicate 100 (CHR ''a'')), (''desc'', [])])]"
    by (simp add: url auth)
  from first second show ?thesis by blast
qed

text \<open>
  Claim C4 says that the derived card name is at most 150 characters long. A source text
  of 151 characters gives a name of 153 characters: the marker is appended after the cut.
\<close>

theorem reply_card_name_over_150:
  "map length (sent_names (telegram_trello_reply_command sample_manager sample_get sample_post
      (reply_to_text 151))) = [153]"
  by code_simp

text \<open>
  Claim C4, amended. For every replied-to source text, the card name that the
  reply-to-create handler sends is at most 153 characters long: at most 150 characters of
  the text and the three characters of the marker.
\<close>

theorem reply_card_name_at_most_153:
  "\<forall>n\<in>set (sent_names (telegram_trello_reply_command self rget rpost upd)). length n \<le> 153"
  using reply_command_sent_names [of self rget rpost upd] length_card_name
  by (auto split: option.splits)

theorem reply_card_name_at_most_153_witness:
  "sent_names (telegram_trello_reply_command sample_manager sample_get sample_post
      (reply_to_text 200)) = [replicate 150 (CHR ''a'') @ ''...''] \<and>
   length (replicate 150 (CHR ''a'') @ ''...'') \<le> 153"
proof -
  let ?run = "telegram_trello_reply_command sample_manager sample_get sample_post
      (reply_to_text 200)"
  have long: "replicate 200 (CHR ''a'') \<noteq> []" by simp
  from reply_command_calls [OF reply_to_text_message reply_to_text_original long,
      of sample_manager sample_get sample_post]
  have "create_calls ?run =
          [(cards_url sample_manager,
            card_params sample_manager ''1'' (card_name (replicate 200 (CHR ''a''))) [])]"
    by (simp add: sample_fetch sample_lists_Todo)
  then have "sent_names ?run = [card_name (replicate 200 (CHR ''a''))]"
    by (rule sent_names_one)
  then have names: "sent_names ?run = [replicate 150 (CHR ''a'') @ ''...'']"
    by (simp add: card_name_def)
  with reply_card_name_at_most_153 [of sample_manager sample_get sample_post
      "reply_to_text 200"]
  have "length (replicate 150 (CHR ''a'') @ ''...'') \<le> 153"
    by simp
  with names show ?thesis by blast
qed

text \<open>
  Claim C10. When the primary text of the replied-to message is present but empty, the
  handler takes the caption as the source text and behaves as it would on a message whose
  primary text is that caption. It replies that the message contains no text exactly when
  the primary text and the caption are both absent or empty, and then it makes no outbound
  call.
\<close>

theorem caption_fallback:
  assumes "reply_to_message upd = Some rm"
  shows "(text_of rm = Some [] \<longrightarrow>
            original_message rm = caption rm \<and>
            telegram_trello_reply_command self rget rpost upd =
              telegram_trello_reply_command self rget rpost
                (upd\<lparr>reply_to_message := Some (rm\<lparr>text_of := caption rm\<rparr>)\<rparr>)) \<and>
         (replies (telegram_trello_reply_command self rget rpost upd) = [no_text_reply] \<longleftrightarrow>
            (text_of rm = None \<or> text_of rm = Some []) \<and>
            (caption rm = None \<or> caption rm = Some [])) \<and>
         ((text_of rm = None \<or> text_of rm = Some []) \<and>
          (caption rm = None \<or> caption rm = Some []) \<longrightarrow>
            fetch_calls (telegram_trello_reply_command self rget rpost upd) = [] \<and>
            create_calls (telegram_trello_reply_command self rget rpost upd) = [])"
proof (intro conjI impI)
  assume empty: "text_of rm = Some []"
  then show "original_message rm = caption rm"
    by (simp add: original_message_def truthy_def)
  from empty have "original_message (rm\<lparr>text_of := caption rm\<rparr>) = original_message rm"
    by (simp add: original_message_def truthy_def)
  with assms show "telegram_trello_reply_command self rget rpost upd =
      telegram_trello_reply_command self rget rpost
        (upd\<lparr>reply_to_message := Some (rm\<lparr>text_of := caption rm\<rparr>)\<rparr>)"
    unfolding telegram_trello_reply_command_def by simp
next
  show "replies (telegram_trello_reply_command self rget rpost upd) = [no_text_reply] \<longleftrightarrow>
          (text_of rm = None \<or> text_of rm = Some []) \<and>
          (caption rm = None \<or> caption rm = Some [])"
  proof (cases "truthy (original_message rm)")
    case True
    from reply_command_replies_text [OF assms True, of self rget rpost] True
    show ?thesis by (simp add: original_message_truthy not_truthy_iff [symmetric])
  next
    case False
    from reply_command_no_text [OF assms False, of self rget rpost] False
    show ?thesis by (simp add: original_message_truthy not_truthy_iff [symmetric])
  qed
next
  assume "(text_of rm = None \<or> text_of rm = Some []) \<and>
          (caption rm = None \<or> caption rm = Some [])"
  then have no: "\<not> truthy (original_message rm)"
    by (simp add: original_message_truthy not_truthy_iff)
  from reply_command_no_text [OF assms no, of self rget rpost]
  show "fetch_calls (telegram_trello_reply_command self rget rpost upd) = []"
    and "create_calls (telegram_trello_reply_command self rget rpost upd) = []"
    by simp_all
qed

theorem caption_fallback_witness:
  "reply_to_message reply_to_caption =
     Some \<lparr>text_of = Some [], caption = Some ''Fix door''\<rparr> \<and>
   original_message \<lparr>text_of = Some [], caption = Some ''Fix door''\<rparr> = Some ''Fix door'' \<and>
   replies (telegram_trello_reply_command sample_manager sample_get sample_post
      reply_to_caption) \<noteq> [no_text_reply] \<and>
   sent_names (telegram_trello_reply_command sample_manager sample_get sample_post
      reply_to_caption) = [''Fix door'']"
proof -
  let ?rm = "\<lparr>text_of = Some [], caption = Some ''Fix door''\<rparr>"
  let ?run = "telegram_trello_reply_command sample_manager sample_get sample_post
      reply_to_caption"
  have rm: "reply_to_message reply_to_caption = Some ?rm"
    by (simp add: reply_to_caption_def)
  have names: "sent_names ?run = [''Fix door'']"
    by code_simp
  note fallback = caption_fallback [OF rm, of sample_manager sample_get sample_post]
  have empty: "text_of ?rm = Some []" by simp
  from fallback empty have "original_message ?rm = caption ?rm" by blast
  then have orig: "original_message ?rm = Some ''Fix door''" by simp
  have "\<not> ((text_of ?rm = None \<or> text_of ?rm = Some []) \<and>
            (caption ?rm = None \<or> caption ?rm = Some []))"
    by simp
  with fallback have other: "replies ?run \<noteq> [no_text_reply]" by blast
  from rm orig other names show ?thesis by blast
qed

section \<open>A failed list fetch\<close>

text \<open>
  Claim C7. In both card-creating handlers, whenever the list fetch fails with an error,
  the handler that reached the fetch replies with one error message that ends with the
  failure detail, and neither handler makes a create-card call.
\<close>

theorem failed_fetch_stops_handler:
  assumes "snd (get_trello_lists self rget) = Inl e"
  shows "(2 \<le> length ts \<longrightarrow>
            replies (telegram_create_card_command self rget rpost upd (Some ts)) =
              [''Error retrieving Trello lists: '' @ e]) \<and>
         create_calls (telegram_create_card_command self rget rpost upd args) = [] \<and>
         (reply_to_message rupd = Some rm \<and> truthy (original_message rm) \<longrightarrow>
            replies (telegram_trello_reply_command self rget rpost rupd) =
              [''Error retrieving Trello lists: '' @ e]) \<and>
         create_calls (telegram_trello_reply_command self rget rpost rupd) = []"
proof (intro conjI impI)
  assume "2 \<le> length ts"
  from create_command_fetch_failed [OF this assms, of rpost upd]
  show "replies (telegram_create_card_command self rget rpost upd (Some ts)) =
          [''Error retrieving Trello lists: '' @ e]"
    by simp
next
  show "create_calls (telegram_create_card_command self rget rpost upd args) = []"
    by (rule create_command_calls_fetch_failed [OF assms])
next
  assume "reply_to_message rupd = Some rm \<and> truthy (original_message rm)"
  then have r: "reply_to_message rupd = Some rm" and t: "truthy (original_message rm)"
    by simp_all
  from reply_command_fetch_failed [OF r t assms, of rpost]
  show "replies (telegram_trello_reply_command self rget rpost rupd) =
          [''Error retrieving Trello lists: '' @ e]"
    by simp
next
  show "create_calls (telegram_trello_reply_command self rget rpost rupd) = []"
    by (simp add: reply_command_calls_general assms split: option.splits)
qed

theorem failed_fetch_stops_handler_witness:
  "snd (get_trello_lists sample_manager down_get) = Inl ''Connection refused'' \<and>
   2 \<le> length [''Doing'', ''Buy milk''] \<and>
   replies (telegram_create_card_command sample_manager down_get sample_post sample_update
      (Some [''Doing'', ''Buy milk''])) =
     [''Error retrieving Trello lists: Connection refused''] \<and>
   create_calls (telegram_create_card_command sample_manager down_get sample_post sample_update
      (Some [''Doing'', ''Buy milk''])) = [] \<and>
   reply_to_message (reply_to_text 5) = Some \<lparr>text_of = Some ''aaaaa'', caption = None\<rparr> \<and>
   truthy (original_message \<lparr>text_of = Some ''aaaaa'', caption = None\<rparr>) \<and>
   replies (telegram_trello_reply_command sample_manager down_get sample_post
      (reply_to_text 5)) =
     [''Error retrieving Trello lists: Connection refused''] \<and>
   create_calls (telegram_trello_reply_command sample_manager down_get sample_post
      (reply_to_text 5)) = []"
proof -
  have failed: "snd (get_trello_lists sample_manager down_get) = Inl ''Connection refused''"
    by (simp add: get_trello_lists_eq down_get_def)
  have two: "2 \<le> length [''Doing'', ''Buy milk'']" by simp
  have rm: "reply_to_message (reply_to_text 5) =
              Some \<lparr>text_of = Some ''aaaaa'', caption = None\<rparr>"
    by code_simp
  have has_text: "truthy (original_message \<lparr>text_of = Some ''aaaaa'', caption = None\<rparr>)"
    by (simp add: original_message_def truthy_def)
  from failed_fetch_stops_handler [OF failed, where ts = "[''Doing'', ''Buy milk'']"
      and rpost = sample_post and upd = sample_update
      and args = "Some [''Doing'', ''Buy milk'']" and rupd = "reply_to_text 5"
      and rm = "\<lparr>text_of = Some ''aaaaa'', caption = None\<rparr>"]
    failed two rm has_text
  show ?thesis by simp
qed

section \<open>The board client\<close>

text \<open>
  Claim C8 says that \<open>listLists\<close> and \<open>createCard\<close> fail exactly when the board-service
  call fails, a non-success status included. A response with status 429 and a decodable
  body is a failed call in that sense, and both operations return its body as a result.
\<close>

theorem client_ignores_status:
  "spec_call_failed (limited_get (lists_url sample_manager) (auth_params sample_manager)) \<and>
   snd (get_trello_lists sample_manager limited_get) = Inr [] \<and>
   spec_call_failed
     (limited_post (cards_url sample_manager)
        (card_params sample_manager ''2'' ''Buy milk'' [])) \<and>
   snd (create_trello_card sample_manager limited_post ''2'' ''Buy milk'' []) = Inr ()"
  by (simp add: spec_call_failed_def status_ok_def limited_get_def limited_post_def
      get_trello_lists_eq create_trello_card_eq)

text \<open>
  Claim C8, amended. \<open>get_trello_lists\<close> and \<open>create_trello_card\<close> fail exactly when the
  request raises (a network failure) or the body of the response cannot be decoded, and
  the error is the message of that exception. The status code is not read: a response
  whose body decodes is returned whatever its status.
\<close>

theorem client_fails_iff_call_raises:
  "(snd (get_trello_lists self rget) = Inl e \<longleftrightarrow>
      rget (lists_url self) (auth_params self) = NetworkFailure e \<or>
      (\<exists>st. rget (lists_url self) (auth_params self) = Response st (Inl e))) \<and>
   (snd (create_trello_card self rpost list_id title description) = Inl e \<longleftrightarrow>
      rpost (cards_url self) (card_params self list_id title description) = NetworkFailure e \<or>
      (\<exists>st. rpost (cards_url self) (card_params self list_id title description) =
               Response st (Inl e))) \<and>
   (rget (lists_url self) (auth_params self) = Response st (Inr v) \<longrightarrow>
      snd (get_trello_lists self rget) = Inr v) \<and>
   (rpost (cards_url self) (card_params self list_id title description) =
      Response st' (Inr w) \<longrightarrow>
      snd (create_trello_card self rpost list_id title description) = Inr w)"
  by (auto simp: get_trello_lists_eq create_trello_card_eq split: http_outcome.splits)

theorem client_fails_iff_call_raises_witness:
  "limited_get (lists_url sample_manager) (auth_params sample_manager) = Response 429 (Inr []) \<and>
   snd (get_trello_lists sample_manager limited_get) = Inr [] \<and>
   down_get (lists_url sample_manager) (auth_params sample_manager) =
     NetworkFailure ''Connection refused'' \<and>
   snd (get_trello_lists sample_manager down_get) = Inl ''Connection refused''"
proof -
  have a: "limited_get (lists_url sample_manager) (auth_params sample_manager) =
             Response 429 (Inr [])"
    by (simp add: limited_get_def)
  have b: "down_get (lists_url sample_manager) (auth_params sample_manager) =
             NetworkFailure ''Connection refused''"
    by (simp add: down_get_def)
  from a client_fails_iff_call_raises [where self = sample_manager and rget = limited_get
      and st = 429 and v = "[]" and rpost = sample_post]
  have c: "snd (get_trello_lists sample_manager limited_get) = Inr []" by blast
  from b client_fails_iff_call_raises [where self = sample_manager and rget = down_get
      and e = "''Connection refused''" and rpost = sample_post]
  have d: "snd (get_trello_lists sample_manager down_get) = Inl ''Connection refused''" by blast
  from a b c d show ?thesis by blast
qed

section \<open>Startup\<close>

text \<open>
  Claim C9 says that a startup with a missing configuration value prints or logs which of
  the four values is missing. An environment that lacks only the bot token and one that
  lacks only the board identifier give the same output.
\<close>

theorem missing_value_not_identified:
  "missing_variables env_without_bot_token = [''TELEGRAM_BOT_TOKEN''] \<and>
   missing_variables env_without_board_id = [''TRELLO_BOARD_ID''] \<and>
   main env_without_bot_token sample_transport = main env_without_board_id sample_transport"
  by code_simp

text \<open>
  Claim C9, amended. At startup, if any of the four required configuration values is unset
  or empty, \<open>main\<close> logs one fixed error line, prints a fixed message that lists the names
  of all four values, and stops: it builds no application and starts no polling.
\<close>

theorem startup_stops_on_missing_value:
  assumes "\<exists>v\<in>set required_variables. getenv v = None \<or> getenv v = Some []"
  shows "main getenv tr =
     [LogError ''Missing one or more required environment variables'',
      Print ''Please set all required environment variables:'',
      Print ''- TELEGRAM_BOT_TOKEN'',
      Print ''- TRELLO_API_KEY'',
      Print ''- TRELLO_TOKEN'',
      Print ''- TRELLO_BOARD_ID''] \<and>
     RunPolling \<notin> set (main getenv tr) \<and>
     (\<forall>tok. BuildApplication tok \<notin> set (main getenv tr))"
proof -
  from assms have "\<not> list_all truthy [getenv ''TELEGRAM_BOT_TOKEN'', getenv ''TRELLO_API_KEY'',
              getenv ''TRELLO_TOKEN'', getenv ''TRELLO_BOARD_ID'']"
    by (auto simp: required_variables_def truthy_def)
  from main_missing [OF this, of tr] show ?thesis by simp
qed

theorem startup_stops_on_missing_value_witness:
  "(\<exists>v\<in>set required_variables.
      env_without_bot_token v = None \<or> env_without_bot_token v = Some []) \<and>
   main env_without_bot_token sample_transport =
     [LogError ''Missing one or more required environment variables'',
      Print ''Please set all required environment variables:'',
      Print ''- TELEGRAM_BOT_TOKEN'',
      Print ''- TRELLO_API_KEY'',
      Print ''- TRELLO_TOKEN'',
      Print ''- TRELLO_BOARD_ID''] \<and>
   RunPolling \<notin> set (main env_without_bot_token sample_transport)"
proof -
  have unset: "\<exists>v\<in>set required_variables.
      env_without_bot_token v = None \<or> env_without_bot_token v = Some []"
    by (simp add: required_variables_def env_without_bot_token_def)
  from startup_stops_on_missing_value [OF unset, of sample_transport] unset
  show ?thesis by blast
qed

end
